theory Spec2Isabelle
  imports Complex_Main
begin

section \<open>Values, errors and the outside world\<close>

text \<open>
  The backend is one Python module, \<^verbatim>\<open>backend/main.py\<close>. Its handlers are thin layers over
  third-party libraries, so the model makes three things explicit:
  \<^item> the process environment \<open>environ\<close> (a map from variable names to strings);
  \<^item> the behaviour of the libraries, taken as parameters: a record of functions that say
    what each library call returns or raises on this request;
  \<^item> the effects: a \<open>world\<close> holding the wall clock that \<^verbatim>\<open>time.time()\<close> reads and the
    trace, in order, of what a handler does that can be seen from outside: the environment
    lookups it makes at request time, its log lines, the spreadsheet read and the calls
    to the storage bucket.

  Python exceptions are values of \<open>exn\<close>; a handler that raises \<^verbatim>\<open>HTTPException\<close> returns
  \<open>Inl\<close>. The handler \<^verbatim>\<open>registrations\<close> is an \<^verbatim>\<open>async def\<close> without any \<^verbatim>\<open>await\<close>, so
  one call runs from its first line to its last without interleaving, and a sequential
  state-passing function is its exact behaviour. Time stamps are floats in the source and
  reals here.
\<close>

datatype exn = RuntimeError string | LibraryError string

fun str_exn :: "exn \<Rightarrow> string" where
  "str_exn (RuntimeError m) = m"
| "str_exn (LibraryError m) = m"

datatype http_exception = HTTPException (status_code: int) (detail: string)

datatype jvalue =
    JBool bool
  | JInt int
  | JStr string
  | JStrList "string list"
  | JRows "string list list"

type_synonym pydict = "(string \<times> jvalue) list"

datatype event =
    Getenv string
  | LogInfo string
  | ValuesGet string string
  | GcsClient
  | UploadFromString string string string string
  | MakePublic string string
  | ListBlobs string string

record world =
  clock :: real
  trace :: "event list"

definition emit :: "event \<Rightarrow> world \<Rightarrow> world" where
  "emit e w = w\<lparr>trace := trace w @ [e]\<rparr>"

text \<open>
  The Google client libraries. \<open>'i\<close> is the parsed credential info, \<open>'c\<close> the credentials
  object and \<open>'s\<close> the service handle. \<open>b64decode_utf8\<close> stands for
  \<^verbatim>\<open>base64.b64decode(s).decode("utf-8")\<close>, \<open>values_get_execute\<close> for
  \<^verbatim>\<open>svc.spreadsheets().values().get(spreadsheetId=..., range=...).execute()\<close>; its result
  is the \<^verbatim>\<open>"values"\<close> entry of the response, \<open>None\<close> when the key is absent.
  \<open>execute_seconds\<close> is how long that call takes on the wall clock.
\<close>

record ('i, 'c, 's) google =
  from_service_account_file :: "string \<Rightarrow> exn + 'c"
  b64decode_utf8 :: "string \<Rightarrow> exn + string"
  json_loads :: "string \<Rightarrow> exn + 'i"
  from_service_account_info :: "'i \<Rightarrow> exn + 'c"
  build :: "'c \<Rightarrow> exn + 's"
  values_get_execute :: "'s \<Rightarrow> string \<Rightarrow> string \<Rightarrow> exn + string list list option"
  execute_seconds :: real

section \<open>Module-level configuration\<close>

text \<open>\<^verbatim>\<open>os.environ.get(name, default)\<close>.\<close>

definition environ_get :: "(string \<rightharpoonup> string) \<Rightarrow> string \<Rightarrow> string \<Rightarrow> string" where
  "environ_get environ name dflt = (case environ name of None \<Rightarrow> dflt | Some v \<Rightarrow> v)"

definition TTL :: real where
  "TTL = 30"

definition SHEET_ID :: "(string \<rightharpoonup> string) \<Rightarrow> string" where
  "SHEET_ID environ = environ_get environ ''SHEET_ID'' ''''"

definition RANGE :: "(string \<rightharpoonup> string) \<Rightarrow> string" where
  "RANGE environ = environ_get environ ''SHEET_RANGE'' ''Form Responses 1!A1:Z''"

definition BUCKET_NAME :: "(string \<rightharpoonup> string) \<Rightarrow> string" where
  "BUCKET_NAME environ = environ_get environ ''PHOTOS_BUCKET'' ''''"

section \<open>The credential resolver: \<^verbatim>\<open>sheets_service\<close>\<close>

text \<open>
  \<^verbatim>\<open>v = os.getenv(name)\<close> followed by \<^verbatim>\<open>if v:\<close>: the lookup is recorded, and the branch is
  taken when the variable is set to a non-empty string.
\<close>

definition getenv_truthy :: "(string \<rightharpoonup> string) \<Rightarrow> string \<Rightarrow> string option" where
  "getenv_truthy environ name =
     (case environ name of None \<Rightarrow> None | Some v \<Rightarrow> if v = [] then None else Some v)"

definition sheets_service ::
  "(string \<rightharpoonup> string) \<Rightarrow> ('i, 'c, 's) google \<Rightarrow> world \<Rightarrow> (exn + 's) \<times> world" where
  "sheets_service environ g w =
     (let w1 = emit (Getenv ''GOOGLE_APPLICATION_CREDENTIALS'') w in
      case getenv_truthy environ ''GOOGLE_APPLICATION_CREDENTIALS'' of
        Some creds_file \<Rightarrow>
          (let w2 = emit (LogInfo (''Using credentials file: '' @ creds_file)) w1 in
           case from_service_account_file g creds_file of
             Inl e \<Rightarrow> (Inl e, w2)
           | Inr creds \<Rightarrow> (build g creds, w2))
      | None \<Rightarrow>
     (let w2 = emit (Getenv ''GOOGLE_APPLICATION_CREDENTIALS_B64'') w1 in
      case getenv_truthy environ ''GOOGLE_APPLICATION_CREDENTIALS_B64'' of
        Some creds_b64 \<Rightarrow>
          (let w3 = emit (LogInfo ''Using base64 credentials from env'') w2 in
           case b64decode_utf8 g creds_b64 of
             Inl e \<Rightarrow> (Inl e, w3)
           | Inr decoded \<Rightarrow>
               (case json_loads g decoded of
                  Inl e \<Rightarrow> (Inl e, w3)
                | Inr info \<Rightarrow>
                    (case from_service_account_info g info of
                       Inl e \<Rightarrow> (Inl e, w3)
                     | Inr creds \<Rightarrow> (build g creds, w3))))
      | None \<Rightarrow>
     (let w3 = emit (Getenv ''GOOGLE_APPLICATION_CREDENTIALS_JSON'') w2 in
      case getenv_truthy environ ''GOOGLE_APPLICATION_CREDENTIALS_JSON'' of
        Some creds_json \<Rightarrow>
          (let w4 = emit (LogInfo ''Using inline JSON credentials from env'') w3 in
           case json_loads g creds_json of
             Inl e \<Rightarrow> (Inl e, w4)
           | Inr info \<Rightarrow>
               (case from_service_account_info g info of
                  Inl e \<Rightarrow> (Inl e, w4)
                | Inr creds \<Rightarrow> (build g creds, w4)))
      | None \<Rightarrow> (Inl (RuntimeError ''No Google credentials provided''), w3))))"

section \<open>The cache and \<^verbatim>\<open>GET /api/registrations\<close>\<close>

text \<open>\<^verbatim>\<open>_cache = {"t": 0.0, "data": None}\<close>.\<close>

record cache =
  cache_t :: real
  cache_data :: "pydict option"

definition init_cache :: cache where
  "init_cache = \<lparr>cache_t = 0, cache_data = None\<rparr>"

definition empty_shape :: pydict where
  "empty_shape = [(''headers'', JStrList []), (''rows'', JRows []), (''count'', JInt 0)]"

text \<open>
  \<^verbatim>\<open>if _cache["data"] and now - _cache["t"] < TTL: return _cache["data"]\<close>.
  A Python dict is true when it has at least one key, \<^verbatim>\<open>None\<close> is false. The result is
  the value the cached branch returns, or \<open>None\<close> when the branch is not taken.
\<close>

definition cache_hit :: "real \<Rightarrow> real \<Rightarrow> cache \<Rightarrow> pydict option" where
  "cache_hit ttl now c =
     (case cache_data c of
        None \<Rightarrow> None
      | Some d \<Rightarrow> if d \<noteq> [] \<and> now - cache_t c < ttl then Some d else None)"

text \<open>
  The body of the \<^verbatim>\<open>try\<close>: resolve the credentials, read the range, take the
  \<^verbatim>\<open>"values"\<close> entry with \<^verbatim>\<open>[]\<close> as the default. The read advances the wall clock.
\<close>

definition sheets_fetch ::
  "(string \<rightharpoonup> string) \<Rightarrow> ('i, 'c, 's) google \<Rightarrow> world \<Rightarrow> (exn + string list list) \<times> world" where
  "sheets_fetch environ g w =
     (case sheets_service environ g w of
        (Inl e, w1) \<Rightarrow> (Inl e, w1)
      | (Inr svc, w1) \<Rightarrow>
          (let w2 = (emit (ValuesGet (SHEET_ID environ) (RANGE environ)) w1)
                      \<lparr>clock := clock w1 + execute_seconds g\<rparr> in
           case values_get_execute g svc (SHEET_ID environ) (RANGE environ) of
             Inl e \<Rightarrow> (Inl e, w2)
           | Inr resp \<Rightarrow> (Inr (case resp of None \<Rightarrow> [] | Some v \<Rightarrow> v), w2)))"

text \<open>The \<^verbatim>\<open>if not values: ... else: ...\<close> that builds \<^verbatim>\<open>out\<close>.\<close>

definition registrations_out :: "string list list \<Rightarrow> pydict" where
  "registrations_out values =
     (case values of
        [] \<Rightarrow> empty_shape
      | headers # rows \<Rightarrow>
          [(''headers'', JStrList headers), (''rows'', JRows rows),
           (''count'', JInt (int (length rows)))])"

text \<open>
  The handler from the \<^verbatim>\<open>try\<close> on: \<open>now\<close> is the value \<^verbatim>\<open>time.time()\<close> returned before the
  freshness test. A failure becomes \<^verbatim>\<open>HTTPException(502)\<close> and leaves the cache alone; a
  success stores \<^verbatim>\<open>out\<close> and \<open>now\<close>.
\<close>

definition refresh ::
  "(string \<rightharpoonup> string) \<Rightarrow> ('i, 'c, 's) google \<Rightarrow> real \<Rightarrow> world \<Rightarrow> cache
     \<Rightarrow> (http_exception + pydict) \<times> world \<times> cache" where
  "refresh environ g now w c =
     (case sheets_fetch environ g w of
        (Inl e, w1) \<Rightarrow>
          (Inl (HTTPException 502 (''Sheets fetch failed: '' @ str_exn e)), w1, c)
      | (Inr values, w1) \<Rightarrow>
          (let out = registrations_out values in
           (Inr out, w1, c\<lparr>cache_data := Some out, cache_t := now\<rparr>)))"

text \<open>
  The handler, with the time-to-live as a parameter; the module fixes it to \<open>TTL\<close>.
\<close>

definition registrations_ttl ::
  "real \<Rightarrow> (string \<rightharpoonup> string) \<Rightarrow> ('i, 'c, 's) google \<Rightarrow> world \<Rightarrow> cache
     \<Rightarrow> (http_exception + pydict) \<times> world \<times> cache" where
  "registrations_ttl ttl environ g w c =
     (if SHEET_ID environ = [] then (Inr empty_shape, w, c)
      else
        (let now = clock w in
         case cache_hit ttl now c of
           Some d \<Rightarrow> (Inr d, w, c)
         | None \<Rightarrow> refresh environ g now w c))"

definition registrations ::
  "(string \<rightharpoonup> string) \<Rightarrow> ('i, 'c, 's) google \<Rightarrow> world \<Rightarrow> cache
     \<Rightarrow> (http_exception + pydict) \<times> world \<times> cache" where
  "registrations = registrations_ttl TTL"

section \<open>The photo endpoints\<close>

text \<open>
  The storage library: \<open>gcs_client_raises\<close> is the exception \<^verbatim>\<open>storage.Client()\<close> raises, if
  any; \<open>upload_from_string\<close> and \<open>make_public\<close> take the bucket and the key first;
  \<open>list_blobs bucket prefix\<close> is what the blob iterator yields, name by name, an \<open>Inl\<close>
  being an exception raised while iterating. The standard library: \<open>splitext_ext\<close> is
  \<^verbatim>\<open>os.path.splitext(p)[1]\<close>, \<open>lower\<close> is \<^verbatim>\<open>str.lower\<close>, \<open>utcnow_ymd\<close> is
  \<^verbatim>\<open>datetime.utcnow().strftime('%Y/%m/%d')\<close> and \<open>uuid4_hex\<close> is \<^verbatim>\<open>uuid.uuid4().hex\<close>.
\<close>

record storage =
  gcs_client_raises :: "exn option"
  upload_from_string :: "string \<Rightarrow> string \<Rightarrow> string \<Rightarrow> string \<Rightarrow> exn option"
  make_public :: "string \<Rightarrow> string \<Rightarrow> exn option"
  public_url :: "string \<Rightarrow> string \<Rightarrow> string"
  list_blobs :: "string \<Rightarrow> string \<Rightarrow> (exn + string) list"

record runtime =
  splitext_ext :: "string \<Rightarrow> string"
  lower :: "string \<Rightarrow> string"
  utcnow_ymd :: string
  uuid4_hex :: string

record upload_file =
  filename :: "string option"
  content_type :: "string option"
  contents :: string

definition startswith :: "string \<Rightarrow> string \<Rightarrow> bool" where
  "startswith s p = (take (length p) s = p)"

definition endswith :: "string \<Rightarrow> string \<Rightarrow> bool" where
  "endswith s x = (length x \<le> length s \<and> drop (length s - length x) s = x)"

text \<open>\<^verbatim>\<open>not file.content_type or not file.content_type.startswith("image/")\<close>.\<close>

definition not_image :: "string option \<Rightarrow> bool" where
  "not_image ct =
     (case ct of None \<Rightarrow> True | Some t \<Rightarrow> t = [] \<or> \<not> startswith t ''image/'')"

text \<open>The body of the \<^verbatim>\<open>try\<close> in \<^verbatim>\<open>upload_photo\<close>.\<close>

definition upload_try ::
  "string \<Rightarrow> storage \<Rightarrow> string \<Rightarrow> string \<Rightarrow> string \<Rightarrow> world \<Rightarrow> (exn + pydict) \<times> world" where
  "upload_try bucket st key dat ct w =
     (let w1 = emit GcsClient w in
      case gcs_client_raises st of
        Some e \<Rightarrow> (Inl e, w1)
      | None \<Rightarrow>
          (let w2 = emit (UploadFromString bucket key dat ct) w1 in
           case upload_from_string st bucket key dat ct of
             Some e \<Rightarrow> (Inl e, w2)
           | None \<Rightarrow>
               (let w3 = emit (MakePublic bucket key) w2 in
                case make_public st bucket key of
                  Some e \<Rightarrow> (Inl e, w3)
                | None \<Rightarrow>
                    (Inr [(''ok'', JBool True), (''url'', JStr (public_url st bucket key)),
                          (''key'', JStr key)], w3))))"

definition upload_photo ::
  "(string \<rightharpoonup> string) \<Rightarrow> runtime \<Rightarrow> storage \<Rightarrow> upload_file \<Rightarrow> world
     \<Rightarrow> (http_exception + pydict) \<times> world" where
  "upload_photo environ rt st file w =
     (if BUCKET_NAME environ = [] then (Inl (HTTPException 500 ''PHOTOS_BUCKET not set''), w)
      else if not_image (content_type file)
        then (Inl (HTTPException 400 ''Only image uploads allowed''), w)
      else
        (let e = lower rt (splitext_ext rt (case filename file of None \<Rightarrow> [] | Some f \<Rightarrow> f));
             ext = (if e = [] then ''.jpg'' else e);
             key = ''uploads/'' @ utcnow_ymd rt @ ''/'' @ uuid4_hex rt @ ext;
             dat = contents file
         in case upload_try (BUCKET_NAME environ) st key dat
                   (case content_type file of None \<Rightarrow> [] | Some t \<Rightarrow> t) w of
              (Inl x, w1) \<Rightarrow> (Inl (HTTPException 500 (''Upload failed: '' @ str_exn x)), w1)
            | (Inr r, w1) \<Rightarrow> (Inr r, w1)))"

text \<open>
  The \<^verbatim>\<open>for b in bucket.list_blobs(prefix="uploads/")\<close> loop of \<^verbatim>\<open>list_photos\<close>; \<open>urls\<close> is
  the list built so far, \<open>limit\<close> a Python int.
\<close>

fun list_loop :: "string \<Rightarrow> int \<Rightarrow> (exn + string) list \<Rightarrow> string list \<Rightarrow> exn + string list" where
  "list_loop bucket limit [] urls = Inr urls"
| "list_loop bucket limit (Inl e # bs) urls = Inl e"
| "list_loop bucket limit (Inr name # bs) urls =
     (if endswith name ''/'' then list_loop bucket limit bs urls
      else
        (let urls' = urls @ [''https://storage.googleapis.com/'' @ bucket @ ''/'' @ name] in
         if int (length urls') \<ge> limit then Inr urls'
         else list_loop bucket limit bs urls'))"

definition list_photos ::
  "(string \<rightharpoonup> string) \<Rightarrow> storage \<Rightarrow> int \<Rightarrow> world \<Rightarrow> (http_exception + pydict) \<times> world" where
  "list_photos environ st limit w =
     (if BUCKET_NAME environ = [] then (Inl (HTTPException 500 ''PHOTOS_BUCKET not set''), w)
      else
        (let w1 = emit GcsClient w in
         case gcs_client_raises st of
           Some e \<Rightarrow> (Inl (HTTPException 500 (''List failed: '' @ str_exn e)), w1)
         | None \<Rightarrow>
             (let w2 = emit (ListBlobs (BUCKET_NAME environ) ''uploads/'') w1 in
              case list_loop (BUCKET_NAME environ) limit
                     (list_blobs st (BUCKET_NAME environ) ''uploads/'') [] of
                Inl e \<Rightarrow> (Inl (HTTPException 500 (''List failed: '' @ str_exn e)), w2)
              | Inr urls \<Rightarrow> (Inr [(''ok'', JBool True), (''photos'', JStrList urls)], w2))))"

text \<open>\<^verbatim>\<open>limit: int = 60\<close>.\<close>

definition default_limit :: int where
  "default_limit = 60"

section \<open>Example inputs\<close>

text \<open>
  Concrete environments, library behaviours and requests on which the theorems below are
  run. In the examples the credential info, the credentials and the service handle are
  strings.
\<close>

definition env_sheet :: "string \<rightharpoonup> string" where
  "env_sheet = map_of [(''SHEET_ID'', ''sheet-1''),
                       (''GOOGLE_APPLICATION_CREDENTIALS'', ''/secrets/sa.json'')]"

definition env_none :: "string \<rightharpoonup> string" where
  "env_none = map_of []"

definition env_bucket :: "string \<rightharpoonup> string" where
  "env_bucket = map_of [(''PHOTOS_BUCKET'', ''club-photos'')]"

definition env_file_b64 :: "string \<rightharpoonup> string" where
  "env_file_b64 = map_of [(''GOOGLE_APPLICATION_CREDENTIALS'', ''/secrets/sa.json''),
                          (''GOOGLE_APPLICATION_CREDENTIALS_B64'', ''e30='')]"

definition env_b64_json :: "string \<rightharpoonup> string" where
  "env_b64_json = map_of [(''GOOGLE_APPLICATION_CREDENTIALS_B64'', ''e30=''),
                          (''GOOGLE_APPLICATION_CREDENTIALS_JSON'', ''{}'')]"

definition env_all :: "string \<rightharpoonup> string" where
  "env_all = map_of [(''GOOGLE_APPLICATION_CREDENTIALS'', ''/secrets/sa.json''),
                     (''GOOGLE_APPLICATION_CREDENTIALS_B64'', ''e30=''),
                     (''GOOGLE_APPLICATION_CREDENTIALS_JSON'', ''{}'')]"

definition env_json :: "string \<Rightarrow> string \<rightharpoonup> string" where
  "env_json j = map_of [(''GOOGLE_APPLICATION_CREDENTIALS'', []),
                        (''GOOGLE_APPLICATION_CREDENTIALS_JSON'', j)]"

text \<open>A spreadsheet read that succeeds with \<open>resp\<close> after \<open>secs\<close> seconds.\<close>

definition g_returning :: "string list list option \<Rightarrow> real \<Rightarrow> (string, string, string) google" where
  "g_returning resp secs =
     \<lparr>from_service_account_file = (\<lambda>p. Inr (''creds:'' @ p)),
      b64decode_utf8 = (\<lambda>s. Inr (''decoded:'' @ s)),
      json_loads = (\<lambda>s. if s = ''not json'' then Inl (LibraryError ''JSONDecodeError'')
                         else Inr (''info:'' @ s)),
      from_service_account_info = (\<lambda>i. Inr (''creds:'' @ i)),
      build = (\<lambda>c. Inr (''svc:'' @ c)),
      values_get_execute = (\<lambda>svc sid rng. Inr resp),
      execute_seconds = secs\<rparr>"

text \<open>Libraries on which the credentials file cannot be read, and the read fails.\<close>

definition g_failing :: "(string, string, string) google" where
  "g_failing =
     \<lparr>from_service_account_file = (\<lambda>p. Inl (LibraryError ''bad key file'')),
      b64decode_utf8 = (\<lambda>s. Inr (''decoded:'' @ s)),
      json_loads = (\<lambda>s. Inr (''info:'' @ s)),
      from_service_account_info = (\<lambda>i. Inr (''creds:'' @ i)),
      build = (\<lambda>c. Inr (''svc:'' @ c)),
      values_get_execute = (\<lambda>svc sid rng. Inl (LibraryError ''quota exceeded'')),
      execute_seconds = 1\<rparr>"

definition example_values :: "string list list" where
  "example_values = [[''Name'', ''Age''], [''Ada'', ''30''], [''Li'', ''25'']]"

definition example_out :: pydict where
  "example_out = [(''headers'', JStrList [''Name'', ''Age'']),
                  (''rows'', JRows [[''Ada'', ''30''], [''Li'', ''25'']]),
                  (''count'', JInt 2)]"

definition w_at :: "real \<Rightarrow> world" where
  "w_at now = \<lparr>clock = now, trace = []\<rparr>"

definition st_blobs :: "(exn + string) list \<Rightarrow> storage" where
  "st_blobs bs =
     \<lparr>gcs_client_raises = None,
      upload_from_string = (\<lambda>b k d t. None),
      make_public = (\<lambda>b k. None),
      public_url = (\<lambda>b k. ''https://storage.googleapis.com/'' @ b @ ''/'' @ k),
      list_blobs = (\<lambda>b p. bs)\<rparr>"

definition rt_example :: runtime where
  "rt_example =
     \<lparr>splitext_ext = (\<lambda>p. []), lower = (\<lambda>s. s),
      utcnow_ymd = ''2024/05/17'', uuid4_hex = ''0123456789abcdef0123456789abcdef''\<rparr>"

definition text_file :: upload_file where
  "text_file = \<lparr>filename = Some ''notes'', content_type = Some ''text/plain'',
                contents = ''hello''\<rparr>"

section \<open>Facts about the model and the examples\<close>

lemma registrations_out_nonempty: "registrations_out values \<noteq> []"
  by (simp add: registrations_out_def empty_shape_def split: list.split)

lemma cache_hit_Some_iff:
  "cache_hit ttl now c = Some d \<longleftrightarrow> cache_data c = Some d \<and> d \<noteq> [] \<and> now - cache_t c < ttl"
  by (auto simp: cache_hit_def split: option.splits)

lemma refresh_Inr:
  assumes "refresh environ g now w c = (Inr v, w', c')"
  shows "v \<noteq> [] \<and> c' = c\<lparr>cache_data := Some v, cache_t := now\<rparr>"
  using assms
  by (auto simp: refresh_def Let_def registrations_out_nonempty split: prod.splits sum.splits)

lemma registrations_Inr_cache:
  assumes "SHEET_ID environ \<noteq> []"
    and "registrations_ttl T environ g w c = (Inr v, w', c')"
  shows "cache_data c' = Some v \<and> v \<noteq> []"
proof (cases "cache_hit T (clock w) c")
  case None
  with assms have "refresh environ g (clock w) w c = (Inr v, w', c')"
    by (simp add: registrations_ttl_def)
  from refresh_Inr [OF this] show ?thesis by simp
next
  case (Some d)
  with assms have "d = v" "c' = c"
    by (simp_all add: registrations_ttl_def)
  with Some show ?thesis by (simp add: cache_hit_Some_iff)
qed

lemma sheets_service_trace:
  "\<exists>evs. trace (snd (sheets_service environ g w)) =
           trace w @ Getenv ''GOOGLE_APPLICATION_CREDENTIALS'' # evs"
  by (simp add: sheets_service_def Let_def emit_def split: option.split sum.split)

lemma sheets_fetch_trace:
  "\<exists>evs. trace (snd (sheets_fetch environ g w)) =
           trace w @ Getenv ''GOOGLE_APPLICATION_CREDENTIALS'' # evs"
proof -
  obtain evs where e: "trace (snd (sheets_service environ g w)) =
      trace w @ Getenv ''GOOGLE_APPLICATION_CREDENTIALS'' # evs"
    using sheets_service_trace by blast
  obtain r w1 where r: "sheets_service environ g w = (r, w1)"
    by (cases "sheets_service environ g w")
  with e have t: "trace w1 = trace w @ Getenv ''GOOGLE_APPLICATION_CREDENTIALS'' # evs"
    by simp
  show ?thesis
    by (cases r) (simp_all add: sheets_fetch_def r t Let_def emit_def split: sum.split)
qed

lemma refresh_trace:
  "\<exists>evs. trace (fst (snd (refresh environ g now w c))) =
           trace w @ Getenv ''GOOGLE_APPLICATION_CREDENTIALS'' # evs"
proof -
  obtain evs where e: "trace (snd (sheets_fetch environ g w)) =
      trace w @ Getenv ''GOOGLE_APPLICATION_CREDENTIALS'' # evs"
    using sheets_fetch_trace by blast
  obtain r w1 where r: "sheets_fetch environ g w = (r, w1)"
    by (cases "sheets_fetch environ g w")
  with e show ?thesis
    by (cases r) (simp_all add: refresh_def Let_def)
qed

lemma SHEET_ID_env_sheet: "SHEET_ID env_sheet = ''sheet-1''"
  by (simp add: SHEET_ID_def environ_get_def env_sheet_def)

lemma RANGE_env_sheet: "RANGE env_sheet = ''Form Responses 1!A1:Z''"
  by (simp add: RANGE_def environ_get_def env_sheet_def)

lemma sheets_service_env_sheet:
  "sheets_service env_sheet (g_returning resp secs) (w_at now) =
     (Inr ''svc:creds:/secrets/sa.json'',
      \<lparr>clock = now, trace = [Getenv ''GOOGLE_APPLICATION_CREDENTIALS'',
         LogInfo ''Using credentials file: /secrets/sa.json'']\<rparr>)"
  by (simp add: sheets_service_def getenv_truthy_def env_sheet_def g_returning_def w_at_def
      emit_def)

lemma sheets_fetch_env_sheet:
  "sheets_fetch env_sheet (g_returning resp secs) (w_at now) =
     (Inr (case resp of None \<Rightarrow> [] | Some v \<Rightarrow> v),
      \<lparr>clock = now + secs, trace = [Getenv ''GOOGLE_APPLICATION_CREDENTIALS'',
         LogInfo ''Using credentials file: /secrets/sa.json'',
         ValuesGet ''sheet-1'' ''Form Responses 1!A1:Z'']\<rparr>)"
  unfolding sheets_fetch_def sheets_service_env_sheet SHEET_ID_env_sheet RANGE_env_sheet
  by (simp add: emit_def g_returning_def)

lemma first_call_example:
  "registrations_ttl TTL env_sheet (g_returning (Some example_values) 5) (w_at 100) init_cache =
     (Inr example_out,
      \<lparr>clock = 105, trace = [Getenv ''GOOGLE_APPLICATION_CREDENTIALS'',
         LogInfo ''Using credentials file: /secrets/sa.json'',
         ValuesGet ''sheet-1'' ''Form Responses 1!A1:Z'']\<rparr>,
      \<lparr>cache_t = 100, cache_data = Some example_out\<rparr>)"
  unfolding registrations_ttl_def refresh_def sheets_fetch_env_sheet SHEET_ID_env_sheet
  by (simp add: Let_def cache_hit_def init_cache_def registrations_out_def example_values_def
      example_out_def w_at_def)

lemma second_call_example:
  "registrations_ttl TTL env_sheet (g_returning (Some [[''Name'', ''Age'']]) 2) (w_at 130)
       \<lparr>cache_t = 100, cache_data = Some example_out\<rparr> =
     (Inr [(''headers'', JStrList [''Name'', ''Age'']), (''rows'', JRows []), (''count'', JInt 0)],
      \<lparr>clock = 132, trace = [Getenv ''GOOGLE_APPLICATION_CREDENTIALS'',
         LogInfo ''Using credentials file: /secrets/sa.json'',
         ValuesGet ''sheet-1'' ''Form Responses 1!A1:Z'']\<rparr>,
      \<lparr>cache_t = 130, cache_data =
         Some [(''headers'', JStrList [''Name'', ''Age'']), (''rows'', JRows []),
               (''count'', JInt 0)]\<rparr>)"
  unfolding registrations_ttl_def refresh_def sheets_fetch_env_sheet SHEET_ID_env_sheet
  by (simp add: Let_def cache_hit_def registrations_out_def TTL_def w_at_def)

lemma late_call_example:
  "registrations_ttl TTL env_sheet (g_returning (Some [[''Name'', ''Age'']]) 2) (w_at 131)
       \<lparr>cache_t = 100, cache_data = Some example_out\<rparr> =
     (Inr [(''headers'', JStrList [''Name'', ''Age'']), (''rows'', JRows []), (''count'', JInt 0)],
      \<lparr>clock = 133, trace = [Getenv ''GOOGLE_APPLICATION_CREDENTIALS'',
         LogInfo ''Using credentials file: /secrets/sa.json'',
         ValuesGet ''sheet-1'' ''Form Responses 1!A1:Z'']\<rparr>,
      \<lparr>cache_t = 131, cache_data =
         Some [(''headers'', JStrList [''Name'', ''Age'']), (''rows'', JRows []),
               (''count'', JInt 0)]\<rparr>)"
  unfolding registrations_ttl_def refresh_def sheets_fetch_env_sheet SHEET_ID_env_sheet
  by (simp add: Let_def cache_hit_def registrations_out_def TTL_def w_at_def)



lemma sheets_service_clock: "clock (snd (sheets_service environ g w)) = clock w"
  by (simp add: sheets_service_def Let_def emit_def split: option.split sum.split)

lemma sheets_fetch_Inr_clock:
  assumes "sheets_fetch environ g w = (Inr values, w')"
  shows "clock w' = clock w + execute_seconds g"
proof -
  obtain r w1 where r: "sheets_service environ g w = (r, w1)"
    by (cases "sheets_service environ g w")
  with sheets_service_clock [of environ g w] have c: "clock w1 = clock w" by simp
  from assms r c show ?thesis
    by (cases r) (auto simp: sheets_fetch_def Let_def emit_def split: sum.splits)
qed

lemma sheets_fetch_example:
  "sheets_fetch env_sheet (g_returning (Some example_values) 5) (w_at 100) =
     (Inr example_values,
      \<lparr>clock = 105, trace = [Getenv ''GOOGLE_APPLICATION_CREDENTIALS'',
         LogInfo ''Using credentials file: /secrets/sa.json'',
         ValuesGet ''sheet-1'' ''Form Responses 1!A1:Z'']\<rparr>)"
  unfolding sheets_fetch_env_sheet by simp

lemma registrations_out_example: "registrations_out example_values = example_out"
  by (simp add: registrations_out_def example_values_def example_out_def)

lemma registrations_out_count:
  "\<exists>rs. map_of (registrations_out values) ''rows'' = Some (JRows rs) \<and>
        map_of (registrations_out values) ''count'' = Some (JInt (int (length rs)))"
  by (simp add: registrations_out_def empty_shape_def split: list.split)

lemma sheets_service_file:
  assumes "getenv_truthy environ ''GOOGLE_APPLICATION_CREDENTIALS'' = Some p"
  shows "sheets_service environ g w =
    (case from_service_account_file g p of Inl e \<Rightarrow> Inl e | Inr creds \<Rightarrow> build g creds,
     w\<lparr>trace := trace w @ [Getenv ''GOOGLE_APPLICATION_CREDENTIALS'',
                             LogInfo (''Using credentials file: '' @ p)]\<rparr>)"
  using assms by (simp add: sheets_service_def Let_def emit_def split: sum.split)

lemma sheets_service_b64:
  assumes "getenv_truthy environ ''GOOGLE_APPLICATION_CREDENTIALS'' = None"
    and "getenv_truthy environ ''GOOGLE_APPLICATION_CREDENTIALS_B64'' = Some b"
  shows "sheets_service environ g w =
    (case b64decode_utf8 g b of Inl e \<Rightarrow> Inl e
     | Inr txt \<Rightarrow>
         (case json_loads g txt of Inl e \<Rightarrow> Inl e
          | Inr info \<Rightarrow>
              (case from_service_account_info g info of Inl e \<Rightarrow> Inl e
               | Inr creds \<Rightarrow> build g creds)),
     w\<lparr>trace := trace w @ [Getenv ''GOOGLE_APPLICATION_CREDENTIALS'',
                             Getenv ''GOOGLE_APPLICATION_CREDENTIALS_B64'',
                             LogInfo ''Using base64 credentials from env'']\<rparr>)"
  using assms by (simp add: sheets_service_def Let_def emit_def split: sum.split)

lemma sheets_service_json:
  assumes "getenv_truthy environ ''GOOGLE_APPLICATION_CREDENTIALS'' = None"
    and "getenv_truthy environ ''GOOGLE_APPLICATION_CREDENTIALS_B64'' = None"
    and "getenv_truthy environ ''GOOGLE_APPLICATION_CREDENTIALS_JSON'' = Some j"
  shows "sheets_service environ g w =
    (case json_loads g j of Inl e \<Rightarrow> Inl e
     | Inr info \<Rightarrow>
         (case from_service_account_info g info of Inl e \<Rightarrow> Inl e
          | Inr creds \<Rightarrow> build g creds),
     w\<lparr>trace := trace w @ [Getenv ''GOOGLE_APPLICATION_CREDENTIALS'',
                             Getenv ''GOOGLE_APPLICATION_CREDENTIALS_B64'',
                             Getenv ''GOOGLE_APPLICATION_CREDENTIALS_JSON'',
                             LogInfo ''Using inline JSON credentials from env'']\<rparr>)"
  using assms by (simp add: sheets_service_def Let_def emit_def split: sum.split)

lemma sheets_service_none:
  assumes "getenv_truthy environ ''GOOGLE_APPLICATION_CREDENTIALS'' = None"
    and "getenv_truthy environ ''GOOGLE_APPLICATION_CREDENTIALS_B64'' = None"
    and "getenv_truthy environ ''GOOGLE_APPLICATION_CREDENTIALS_JSON'' = None"
  shows "sheets_service environ g w =
    (Inl (RuntimeError ''No Google credentials provided''),
     w\<lparr>trace := trace w @ [Getenv ''GOOGLE_APPLICATION_CREDENTIALS'',
                             Getenv ''GOOGLE_APPLICATION_CREDENTIALS_B64'',
                             Getenv ''GOOGLE_APPLICATION_CREDENTIALS_JSON'']\<rparr>)"
  using assms by (simp add: sheets_service_def Let_def emit_def)

lemma getenv_examples:
  "getenv_truthy env_file_b64 ''GOOGLE_APPLICATION_CREDENTIALS'' = Some ''/secrets/sa.json''"
  "getenv_truthy env_file_b64 ''GOOGLE_APPLICATION_CREDENTIALS_B64'' = Some ''e30=''"
  "getenv_truthy env_b64_json ''GOOGLE_APPLICATION_CREDENTIALS'' = None"
  "getenv_truthy env_b64_json ''GOOGLE_APPLICATION_CREDENTIALS_B64'' = Some ''e30=''"
  "getenv_truthy env_b64_json ''GOOGLE_APPLICATION_CREDENTIALS_JSON'' = Some ''{}''"
  "getenv_truthy env_all ''GOOGLE_APPLICATION_CREDENTIALS'' = Some ''/secrets/sa.json''"
  "getenv_truthy env_all ''GOOGLE_APPLICATION_CREDENTIALS_B64'' = Some ''e30=''"
  "getenv_truthy env_all ''GOOGLE_APPLICATION_CREDENTIALS_JSON'' = Some ''{}''"
  "getenv_truthy (env_json j) ''GOOGLE_APPLICATION_CREDENTIALS'' = None"
  "getenv_truthy (env_json j) ''GOOGLE_APPLICATION_CREDENTIALS_B64'' = None"
  "getenv_truthy (env_json ''not json'') ''GOOGLE_APPLICATION_CREDENTIALS_JSON'' = Some ''not json''"
  "getenv_truthy env_none ''GOOGLE_APPLICATION_CREDENTIALS'' = None"
  "getenv_truthy env_none ''GOOGLE_APPLICATION_CREDENTIALS_B64'' = None"
  "getenv_truthy env_none ''GOOGLE_APPLICATION_CREDENTIALS_JSON'' = None"
  by (simp_all add: getenv_truthy_def env_file_b64_def env_b64_json_def env_all_def
      env_json_def env_none_def)

lemma BUCKET_NAME_examples:
  "BUCKET_NAME env_bucket = ''club-photos''" "BUCKET_NAME env_none = []"
  by (simp_all add: BUCKET_NAME_def environ_get_def env_bucket_def env_none_def)

lemma not_image_text_file: "not_image (content_type text_file)"
  by (simp add: not_image_def text_file_def startswith_def)

lemma upload_photo_image_example:
  "upload_photo env_bucket rt_example (st_blobs [])
     \<lparr>filename = Some ''pic'', content_type = Some ''image/png'', contents = ''bytes''\<rparr>
     (w_at 0) =
   (Inr [(''ok'', JBool True),
         (''url'', JStr ''https://storage.googleapis.com/club-photos/uploads/2024/05/17/0123456789abcdef0123456789abcdef.jpg''),
         (''key'', JStr ''uploads/2024/05/17/0123456789abcdef0123456789abcdef.jpg'')],
    \<lparr>clock = 0, trace = [GcsClient,
       UploadFromString ''club-photos''
         ''uploads/2024/05/17/0123456789abcdef0123456789abcdef.jpg'' ''bytes'' ''image/png'',
       MakePublic ''club-photos''
         ''uploads/2024/05/17/0123456789abcdef0123456789abcdef.jpg'']\<rparr>)"
  by (simp add: upload_photo_def BUCKET_NAME_examples not_image_def startswith_def
      rt_example_def upload_try_def st_blobs_def emit_def w_at_def Let_def)

lemma list_loop_bound:
  assumes "list_loop bucket limit bs urls = Inr out"
    and "1 \<le> limit" and "int (length urls) < limit"
  shows "int (length out) \<le> limit"
  using assms
proof (induction bucket limit bs urls rule: list_loop.induct)
  case (1 bucket limit urls)
  then show ?case by simp
next
  case (2 bucket limit e bs urls)
  then show ?case by simp
next
  case (3 bucket limit name bs urls)
  show ?case
  proof (cases "endswith name ''/''")
    case True
    with 3 show ?thesis by simp
  next
    case False
    let ?urls' = "urls @ [''https://storage.googleapis.com/'' @ bucket @ ''/'' @ name]"
    show ?thesis
    proof (cases "int (length ?urls') \<ge> limit")
      case True
      with False "3.prems" have "out = ?urls'" by (simp add: Let_def)
      with "3.prems" show ?thesis by simp
    next
      case stay: False
      with False "3.prems" have "list_loop bucket limit bs ?urls' = Inr out"
        by (simp add: Let_def)
      moreover from stay have "int (length ?urls') < limit" by simp
      ultimately show ?thesis
        using "3.IH"(2) [OF False refl stay] "3.prems"(2) by blast
    qed
  qed
qed

lemma list_loop_skips_directories:
  assumes "list_loop bucket limit bs urls = Inr out"
  shows "set out \<subseteq> set urls \<union>
    {''https://storage.googleapis.com/'' @ bucket @ ''/'' @ name | name.
       Inr name \<in> set bs \<and> \<not> endswith name ''/''}"
  using assms
proof (induction bucket limit bs urls rule: list_loop.induct)
  case (1 bucket limit urls)
  then show ?case by auto
next
  case (2 bucket limit e bs urls)
  then show ?case by simp
next
  case (3 bucket limit name bs urls)
  show ?case
  proof (cases "endswith name ''/''")
    case True
    with 3 show ?thesis by auto
  next
    case False
    let ?urls' = "urls @ [''https://storage.googleapis.com/'' @ bucket @ ''/'' @ name]"
    show ?thesis
    proof (cases "int (length ?urls') \<ge> limit")
      case True
      with False "3.prems" have "out = ?urls'" by (simp add: Let_def)
      with False show ?thesis by auto
    next
      case stay: False
      with False "3.prems" have "list_loop bucket limit bs ?urls' = Inr out"
        by (simp add: Let_def)
      from "3.IH"(2) [OF False refl stay this] False show ?thesis by auto
    qed
  qed
qed

lemma list_photos_limit_two:
  "list_photos env_bucket (st_blobs [Inr ''uploads/'', Inr ''uploads/a.jpg'', Inr ''uploads/b.jpg'',
       Inr ''uploads/c.jpg''])
     2 (w_at 0) =
   (Inr [(''ok'', JBool True),
         (''photos'', JStrList [''https://storage.googleapis.com/club-photos/uploads/a.jpg'',
            ''https://storage.googleapis.com/club-photos/uploads/b.jpg''])],
    \<lparr>clock = 0, trace = [GcsClient, ListBlobs ''club-photos'' ''uploads/'']\<rparr>)"
  by (simp add: list_photos_def BUCKET_NAME_examples st_blobs_def endswith_def emit_def
      w_at_def Let_def)

section \<open>The cache of \<^verbatim>\<open>GET /api/registrations\<close>\<close>

text \<open>
  C1, as the code has it. Whatever the time-to-live \<open>T\<close> (so for every \<open>T > 0\<close>): after a
  call that returned a value \<open>v1\<close>, a second call whose clock reading is less than \<open>T\<close>
  after the stored time stamp \<^verbatim>\<open>_cache["t"]\<close> returns \<open>v1\<close> again, whatever the libraries
  would do on that request (\<open>g2\<close> is arbitrary). The world and the cache come back
  unchanged: no lookup, no log line and no spreadsheet read was made. With a spreadsheet
  id configured, \<open>v1\<close> is the stored value. The stored time stamp is the clock reading
  taken at the start of the request that did the last successful refresh, so the window
  runs from that reading and not from the moment the refresh succeeded.
\<close>

theorem registrations_cached_within_ttl:
  assumes "registrations_ttl T environ g1 w1 c0 = (Inr v1, w1', c1)"
    and "clock w2 - cache_t c1 < T"
  shows "registrations_ttl T environ g2 w2 c1 = (Inr v1, w2, c1) \<and>
         (SHEET_ID environ \<noteq> [] \<longrightarrow> cache_data c1 = Some v1)"
proof (cases "SHEET_ID environ = []")
  case True
  with assms(1) have "v1 = empty_shape"
    by (simp add: registrations_ttl_def)
  with True show ?thesis
    by (simp add: registrations_ttl_def)
next
  case False
  from registrations_Inr_cache [OF False assms(1)]
  have d: "cache_data c1 = Some v1" and ne: "v1 \<noteq> []" by simp_all
  with assms(2) have "cache_hit T (clock w2) c1 = Some v1"
    by (simp add: cache_hit_Some_iff)
  with False d show ?thesis
    by (simp add: registrations_ttl_def)
qed

theorem registrations_cached_within_ttl_witness:
  "registrations_ttl TTL env_sheet (g_returning (Some example_values) 5) (w_at 100) init_cache =
     (Inr example_out,
      \<lparr>clock = 105, trace = [Getenv ''GOOGLE_APPLICATION_CREDENTIALS'',
         LogInfo ''Using credentials file: /secrets/sa.json'',
         ValuesGet ''sheet-1'' ''Form Responses 1!A1:Z'']\<rparr>,
      \<lparr>cache_t = 100, cache_data = Some example_out\<rparr>) \<and>
   clock (w_at 129) - cache_t \<lparr>cache_t = 100, cache_data = Some example_out\<rparr> < TTL \<and>
   SHEET_ID env_sheet \<noteq> [] \<and>
   registrations_ttl TTL env_sheet g_failing (w_at 129)
       \<lparr>cache_t = 100, cache_data = Some example_out\<rparr> =
     (Inr example_out, w_at 129, \<lparr>cache_t = 100, cache_data = Some example_out\<rparr>)"
proof -
  have a: "SHEET_ID env_sheet \<noteq> []" by (simp add: SHEET_ID_env_sheet)
  have c: "clock (w_at 129) - cache_t \<lparr>cache_t = 100, cache_data = Some example_out\<rparr> < TTL"
    by (simp add: w_at_def TTL_def)
  from registrations_cached_within_ttl [OF first_call_example c, of g_failing]
  show ?thesis using a first_call_example c by simp
qed

text \<open>
  C1 as claimed fails, with the elapsed time taken from the successful refresh: a request
  arrives at time 100, its spreadsheet read takes 5 seconds and succeeds at time 105, and
  the stored time stamp is 100. A second request at time 131 comes 26 seconds after that
  success, less than the 30 seconds of \<open>TTL\<close>, yet \<open>131 - 100\<close> is not below 30: the
  handler reads the spreadsheet again and returns what it now holds, a different value.
\<close>

theorem cached_since_success_counterexample:
  "fst (registrations env_sheet (g_returning (Some example_values) 5) (w_at 100) init_cache) =
     Inr example_out \<and>
   clock (fst (snd (registrations env_sheet (g_returning (Some example_values) 5) (w_at 100)
     init_cache))) = 105 \<and>
   clock (w_at 131) -
     clock (fst (snd (registrations env_sheet (g_returning (Some example_values) 5) (w_at 100)
       init_cache))) < TTL \<and>
   registrations env_sheet (g_returning (Some [[''Name'', ''Age'']]) 2) (w_at 131)
     (snd (snd (registrations env_sheet (g_returning (Some example_values) 5) (w_at 100)
       init_cache))) =
     (Inr [(''headers'', JStrList [''Name'', ''Age'']), (''rows'', JRows []), (''count'', JInt 0)],
      \<lparr>clock = 133, trace = [Getenv ''GOOGLE_APPLICATION_CREDENTIALS'',
         LogInfo ''Using credentials file: /secrets/sa.json'',
         ValuesGet ''sheet-1'' ''Form Responses 1!A1:Z'']\<rparr>,
      \<lparr>cache_t = 131, cache_data =
         Some [(''headers'', JStrList [''Name'', ''Age'']), (''rows'', JRows []),
               (''count'', JInt 0)]\<rparr>) \<and>
   fst (registrations env_sheet (g_returning (Some [[''Name'', ''Age'']]) 2) (w_at 131)
     (snd (snd (registrations env_sheet (g_returning (Some example_values) 5) (w_at 100)
       init_cache)))) \<noteq>
   fst (registrations env_sheet (g_returning (Some example_values) 5) (w_at 100) init_cache)"
  unfolding registrations_def first_call_example
  by (simp add: late_call_example) (simp add: w_at_def TTL_def example_out_def)



text \<open>
  C3. The freshness test is strict: when the clock reading is exactly \<open>T\<close> after the stored
  time stamp, the cached branch is not taken, the handler continues with the refresh, and
  the trace grows (the credential resolver was entered).
\<close>

theorem registrations_refresh_at_ttl:
  assumes "SHEET_ID environ \<noteq> []"
    and "clock w - cache_t c = T"
  shows "cache_hit T (clock w) c = None \<and>
         registrations_ttl T environ g w c = refresh environ g (clock w) w c \<and>
         trace (fst (snd (registrations_ttl T environ g w c))) \<noteq> trace w"
proof -
  from assms(2) have miss: "cache_hit T (clock w) c = None"
    by (simp add: cache_hit_def split: option.split)
  with assms(1) have eq: "registrations_ttl T environ g w c = refresh environ g (clock w) w c"
    by (simp add: registrations_ttl_def)
  obtain evs where "trace (fst (snd (refresh environ g (clock w) w c))) =
      trace w @ Getenv ''GOOGLE_APPLICATION_CREDENTIALS'' # evs"
    using refresh_trace by blast
  with eq have "trace (fst (snd (registrations_ttl T environ g w c))) \<noteq> trace w"
    by simp
  with miss eq show ?thesis by simp
qed

theorem registrations_refresh_at_ttl_witness:
  "SHEET_ID env_sheet \<noteq> [] \<and>
   clock (w_at 130) - cache_t \<lparr>cache_t = 100, cache_data = Some example_out\<rparr> = TTL \<and>
   cache_hit TTL (clock (w_at 130)) \<lparr>cache_t = 100, cache_data = Some example_out\<rparr> = None \<and>
   registrations_ttl TTL env_sheet (g_returning (Some [[''Name'', ''Age'']]) 2) (w_at 130)
       \<lparr>cache_t = 100, cache_data = Some example_out\<rparr> =
     (Inr [(''headers'', JStrList [''Name'', ''Age'']), (''rows'', JRows []), (''count'', JInt 0)],
      \<lparr>clock = 132, trace = [Getenv ''GOOGLE_APPLICATION_CREDENTIALS'',
         LogInfo ''Using credentials file: /secrets/sa.json'',
         ValuesGet ''sheet-1'' ''Form Responses 1!A1:Z'']\<rparr>,
      \<lparr>cache_t = 130, cache_data =
         Some [(''headers'', JStrList [''Name'', ''Age'']), (''rows'', JRows []),
               (''count'', JInt 0)]\<rparr>)"
proof -
  have a: "SHEET_ID env_sheet \<noteq> []" by (simp add: SHEET_ID_env_sheet)
  have b: "clock (w_at 130) - cache_t \<lparr>cache_t = 100, cache_data = Some example_out\<rparr> = TTL"
    by (simp add: w_at_def TTL_def)
  from registrations_refresh_at_ttl [OF a b, of "g_returning (Some [[''Name'', ''Age'']]) 2"]
  show ?thesis using a b second_call_example by simp
qed

text \<open>
  C4, as the code has it. A successful refresh replaces the stored value and the stored
  time stamp together. The time stamp it stores is the clock reading taken at the start
  of the request, before the credentials are resolved and the spreadsheet is read; the
  refresh completes \<open>execute_seconds\<close> later, and that later time is not what is stored.
\<close>

theorem refresh_success_stores_request_time:
  assumes "SHEET_ID environ \<noteq> []"
    and "cache_hit T (clock w) c = None"
    and "sheets_fetch environ g w = (Inr values, w')"
  shows "registrations_ttl T environ g w c =
           (Inr (registrations_out values), w',
            \<lparr>cache_t = clock w, cache_data = Some (registrations_out values)\<rparr>) \<and>
         clock w' = clock w + execute_seconds g"
  using assms sheets_fetch_Inr_clock [OF assms(3)]
  by (simp add: registrations_ttl_def refresh_def Let_def)

theorem refresh_success_stores_request_time_witness:
  "SHEET_ID env_sheet \<noteq> [] \<and>
   cache_hit TTL (clock (w_at 100)) \<lparr>cache_t = 60, cache_data = Some empty_shape\<rparr> = None \<and>
   registrations_ttl TTL env_sheet (g_returning (Some example_values) 5) (w_at 100)
       \<lparr>cache_t = 60, cache_data = Some empty_shape\<rparr> =
     (Inr example_out,
      \<lparr>clock = 105, trace = [Getenv ''GOOGLE_APPLICATION_CREDENTIALS'',
         LogInfo ''Using credentials file: /secrets/sa.json'',
         ValuesGet ''sheet-1'' ''Form Responses 1!A1:Z'']\<rparr>,
      \<lparr>cache_t = 100, cache_data = Some example_out\<rparr>)"
proof -
  have a: "SHEET_ID env_sheet \<noteq> []" by (simp add: SHEET_ID_env_sheet)
  have b: "cache_hit TTL (clock (w_at 100)) \<lparr>cache_t = 60, cache_data = Some empty_shape\<rparr> = None"
    by (simp add: cache_hit_def w_at_def TTL_def)
  from refresh_success_stores_request_time [OF a b sheets_fetch_example]
  show ?thesis using a b by (simp add: registrations_out_example w_at_def)
qed

text \<open>
  C4 as claimed fails: a request arrives at time 100, its spreadsheet read takes 5
  seconds and succeeds at time 105; the stored time stamp is 100, the arrival time of the
  request that triggered the refresh, not the time of the successful refresh.
\<close>

theorem refresh_timestamp_counterexample:
  "fst (registrations env_sheet (g_returning (Some example_values) 5) (w_at 100) init_cache) =
     Inr example_out \<and>
   cache_t (snd (snd (registrations env_sheet (g_returning (Some example_values) 5) (w_at 100)
     init_cache))) = clock (w_at 100) \<and>
   clock (fst (snd (registrations env_sheet (g_returning (Some example_values) 5) (w_at 100)
     init_cache))) = 105 \<and>
   cache_t (snd (snd (registrations env_sheet (g_returning (Some example_values) 5) (w_at 100)
     init_cache))) \<noteq>
   clock (fst (snd (registrations env_sheet (g_returning (Some example_values) 5) (w_at 100)
     init_cache)))"
  unfolding registrations_def first_call_example by (simp add: w_at_def)

text \<open>
  C6. With no spreadsheet id configured (\<^verbatim>\<open>SHEET_ID\<close> unset or empty), every request to
  \<^verbatim>\<open>GET /api/registrations\<close> succeeds with exactly
  \<^verbatim>\<open>{"headers": [], "rows": [], "count": 0}\<close>; the world is unchanged, so no environment
  lookup, credential resolution or library call happened, and the cache is untouched.
\<close>

theorem registrations_no_sheet_id:
  "SHEET_ID environ = [] \<Longrightarrow>
     registrations_ttl ttl environ g w c =
       (Inr [(''headers'', JStrList []), (''rows'', JRows []), (''count'', JInt 0)], w, c)"
  by (simp add: registrations_ttl_def empty_shape_def)

theorem registrations_no_sheet_id_witness:
  "SHEET_ID env_none = [] \<and>
   registrations_ttl TTL env_none g_failing (w_at 5) init_cache =
     (Inr [(''headers'', JStrList []), (''rows'', JRows []), (''count'', JInt 0)],
      w_at 5, init_cache)"
proof -
  have a: "SHEET_ID env_none = []"
    by (simp add: SHEET_ID_def environ_get_def env_none_def)
  from registrations_no_sheet_id [OF a, of TTL g_failing "w_at 5" init_cache]
  show ?thesis using a by simp
qed

text \<open>
  C7. When the read returns a non-empty list of rows, the response has the first row as
  \<^verbatim>\<open>headers\<close>, the remaining rows as \<^verbatim>\<open>rows\<close>, and their number as \<^verbatim>\<open>count\<close>, so
  \<^verbatim>\<open>count == len(rows)\<close>. The witness is the example of the specification:
  \<^verbatim>\<open>[["Name","Age"],["Ada","30"],["Li","25"]]\<close> gives two rows and \<^verbatim>\<open>count\<close> 2.
\<close>

theorem registrations_maps_rows:
  assumes "SHEET_ID environ \<noteq> []"
    and "cache_hit T (clock w) c = None"
    and "sheets_fetch environ g w = (Inr (first_row # more_rows), w')"
  shows "fst (registrations_ttl T environ g w c) =
           Inr [(''headers'', JStrList first_row), (''rows'', JRows more_rows),
                (''count'', JInt (int (length more_rows)))]"
  using assms by (simp add: registrations_ttl_def refresh_def Let_def registrations_out_def)

theorem registrations_maps_rows_witness:
  "SHEET_ID env_sheet \<noteq> [] \<and>
   cache_hit TTL (clock (w_at 100)) init_cache = None \<and>
   sheets_fetch env_sheet
       (g_returning (Some [[''Name'', ''Age''], [''Ada'', ''30''], [''Li'', ''25'']]) 5) (w_at 100) =
     (Inr [[''Name'', ''Age''], [''Ada'', ''30''], [''Li'', ''25'']],
      \<lparr>clock = 105, trace = [Getenv ''GOOGLE_APPLICATION_CREDENTIALS'',
         LogInfo ''Using credentials file: /secrets/sa.json'',
         ValuesGet ''sheet-1'' ''Form Responses 1!A1:Z'']\<rparr>) \<and>
   fst (registrations_ttl TTL env_sheet
       (g_returning (Some [[''Name'', ''Age''], [''Ada'', ''30''], [''Li'', ''25'']]) 5) (w_at 100)
       init_cache) =
     Inr [(''headers'', JStrList [''Name'', ''Age'']),
          (''rows'', JRows [[''Ada'', ''30''], [''Li'', ''25'']]),
          (''count'', JInt 2)]"
proof -
  have a: "SHEET_ID env_sheet \<noteq> []" by (simp add: SHEET_ID_env_sheet)
  have b: "cache_hit TTL (clock (w_at 100)) init_cache = None"
    by (simp add: cache_hit_def init_cache_def)
  have f: "sheets_fetch env_sheet
       (g_returning (Some [[''Name'', ''Age''], [''Ada'', ''30''], [''Li'', ''25'']]) 5) (w_at 100) =
     (Inr [[''Name'', ''Age''], [''Ada'', ''30''], [''Li'', ''25'']],
      \<lparr>clock = 105, trace = [Getenv ''GOOGLE_APPLICATION_CREDENTIALS'',
         LogInfo ''Using credentials file: /secrets/sa.json'',
         ValuesGet ''sheet-1'' ''Form Responses 1!A1:Z'']\<rparr>)"
    unfolding sheets_fetch_env_sheet by simp
  from registrations_maps_rows [OF a b f]
  show ?thesis using a b f by simp
qed

text \<open>
  C10. When the spreadsheet id is configured and the read succeeds with no rows (the
  \<^verbatim>\<open>"values"\<close> key absent, or an empty list), the response is the empty shape, the cache
  holds it with the time stamp of this request, and any request whose clock reading is
  less than \<open>T\<close> later gets the empty shape from the cache: world and cache unchanged,
  whatever the libraries would do (\<open>g2\<close> is arbitrary). The empty shape is a dict with
  three keys, so it is true in the freshness test.
\<close>

theorem registrations_empty_sheet_cached:
  assumes "SHEET_ID environ \<noteq> []"
    and "cache_hit T (clock w) c = None"
    and "sheets_service environ g w = (Inr svc, w1)"
    and "values_get_execute g svc (SHEET_ID environ) (RANGE environ) = Inr resp"
    and "resp = None \<or> resp = Some []"
    and "clock w2 - clock w < T"
  shows "registrations_ttl T environ g w c =
           (Inr empty_shape,
            (emit (ValuesGet (SHEET_ID environ) (RANGE environ)) w1)
              \<lparr>clock := clock w1 + execute_seconds g\<rparr>,
            \<lparr>cache_t = clock w, cache_data = Some empty_shape\<rparr>) \<and>
         registrations_ttl T environ g2 w2 \<lparr>cache_t = clock w, cache_data = Some empty_shape\<rparr> =
           (Inr empty_shape, w2, \<lparr>cache_t = clock w, cache_data = Some empty_shape\<rparr>)"
proof -
  from assms(5) have v: "(case resp of None \<Rightarrow> [] | Some v \<Rightarrow> v) = []"
    by auto
  have first: "registrations_ttl T environ g w c =
           (Inr empty_shape,
            (emit (ValuesGet (SHEET_ID environ) (RANGE environ)) w1)
              \<lparr>clock := clock w1 + execute_seconds g\<rparr>,
            \<lparr>cache_t = clock w, cache_data = Some empty_shape\<rparr>)"
    using assms(1-4) v
    by (simp add: registrations_ttl_def refresh_def sheets_fetch_def Let_def
        registrations_out_def)
  have "empty_shape \<noteq> []" by (simp add: empty_shape_def)
  with assms(6) have "cache_hit T (clock w2) \<lparr>cache_t = clock w, cache_data = Some empty_shape\<rparr> =
      Some empty_shape"
    by (simp add: cache_hit_def)
  with assms(1) have "registrations_ttl T environ g2 w2
      \<lparr>cache_t = clock w, cache_data = Some empty_shape\<rparr> =
      (Inr empty_shape, w2, \<lparr>cache_t = clock w, cache_data = Some empty_shape\<rparr>)"
    by (simp add: registrations_ttl_def)
  with first show ?thesis by simp
qed

theorem registrations_empty_sheet_cached_witness:
  "SHEET_ID env_sheet \<noteq> [] \<and>
   cache_hit TTL (clock (w_at 100)) init_cache = None \<and>
   clock (w_at 129) - clock (w_at 100) < TTL \<and>
   registrations_ttl TTL env_sheet (g_returning None 5) (w_at 100) init_cache =
     (Inr [(''headers'', JStrList []), (''rows'', JRows []), (''count'', JInt 0)],
      \<lparr>clock = 105, trace = [Getenv ''GOOGLE_APPLICATION_CREDENTIALS'',
         LogInfo ''Using credentials file: /secrets/sa.json'',
         ValuesGet ''sheet-1'' ''Form Responses 1!A1:Z'']\<rparr>,
      \<lparr>cache_t = 100, cache_data =
         Some [(''headers'', JStrList []), (''rows'', JRows []), (''count'', JInt 0)]\<rparr>) \<and>
   registrations_ttl TTL env_sheet g_failing (w_at 129)
       \<lparr>cache_t = 100, cache_data =
          Some [(''headers'', JStrList []), (''rows'', JRows []), (''count'', JInt 0)]\<rparr> =
     (Inr [(''headers'', JStrList []), (''rows'', JRows []), (''count'', JInt 0)],
      w_at 129,
      \<lparr>cache_t = 100, cache_data =
         Some [(''headers'', JStrList []), (''rows'', JRows []), (''count'', JInt 0)]\<rparr>)"
proof -
  have a: "SHEET_ID env_sheet \<noteq> []" by (simp add: SHEET_ID_env_sheet)
  have b: "cache_hit TTL (clock (w_at 100)) init_cache = None"
    by (simp add: cache_hit_def init_cache_def)
  have e: "values_get_execute (g_returning None 5) ''svc:creds:/secrets/sa.json''
      (SHEET_ID env_sheet) (RANGE env_sheet) = Inr None"
    by (simp add: g_returning_def)
  have t: "clock (w_at 129) - clock (w_at 100) < TTL"
    by (simp add: w_at_def TTL_def)
  from registrations_empty_sheet_cached [OF a b sheets_service_env_sheet e _ t, of g_failing]
  show ?thesis using a b t
    by (simp add: empty_shape_def emit_def w_at_def g_returning_def SHEET_ID_env_sheet
        RANGE_env_sheet)
qed

section \<open>Properties of the credential resolver\<close>

text \<open>
  C5. \<^verbatim>\<open>sheets_service\<close> looks at the file path, then at the base64 variable, then at the
  inline JSON variable, and builds the client from the first that is set to a non-empty
  string; the trace shows the lookups made and the source announced in the log, and no
  lookup of a later source. The value is the client built from that source, or the
  exception the source's own parsing raised: a malformed source is not skipped, whatever
  the later variables hold. With no source set, the call raises
  \<^verbatim>\<open>RuntimeError("No Google credentials provided")\<close>. The witness runs the two orders of the
  specification (file and base64 both set; base64 and inline JSON only), a malformed
  file with both later sources set and valid, a malformed inline JSON, and no source.
\<close>

theorem sheets_service_priority:
  fixes environ :: "string \<rightharpoonup> string" and g :: "('i, 'c, 's) google" and w :: world
  shows
   "(getenv_truthy environ ''GOOGLE_APPLICATION_CREDENTIALS'' = Some p \<longrightarrow>
       snd (sheets_service environ g w) =
         w\<lparr>trace := trace w @ [Getenv ''GOOGLE_APPLICATION_CREDENTIALS'',
                                 LogInfo (''Using credentials file: '' @ p)]\<rparr> \<and>
       (from_service_account_file g p = Inr creds \<longrightarrow>
          fst (sheets_service environ g w) = build g creds) \<and>
       (from_service_account_file g p = Inl e \<longrightarrow>
          fst (sheets_service environ g w) = Inl e)) \<and>
    (getenv_truthy environ ''GOOGLE_APPLICATION_CREDENTIALS'' = None \<and>
     getenv_truthy environ ''GOOGLE_APPLICATION_CREDENTIALS_B64'' = Some b \<longrightarrow>
       snd (sheets_service environ g w) =
         w\<lparr>trace := trace w @ [Getenv ''GOOGLE_APPLICATION_CREDENTIALS'',
                                 Getenv ''GOOGLE_APPLICATION_CREDENTIALS_B64'',
                                 LogInfo ''Using base64 credentials from env'']\<rparr> \<and>
       (b64decode_utf8 g b = Inr decoded \<and> json_loads g decoded = Inr info \<and>
        from_service_account_info g info = Inr creds \<longrightarrow>
          fst (sheets_service environ g w) = build g creds) \<and>
       (b64decode_utf8 g b = Inl e \<or>
        b64decode_utf8 g b = Inr decoded \<and> json_loads g decoded = Inl e \<or>
        b64decode_utf8 g b = Inr decoded \<and> json_loads g decoded = Inr info \<and>
          from_service_account_info g info = Inl e \<longrightarrow>
          fst (sheets_service environ g w) = Inl e)) \<and>
    (getenv_truthy environ ''GOOGLE_APPLICATION_CREDENTIALS'' = None \<and>
     getenv_truthy environ ''GOOGLE_APPLICATION_CREDENTIALS_B64'' = None \<and>
     getenv_truthy environ ''GOOGLE_APPLICATION_CREDENTIALS_JSON'' = Some j \<longrightarrow>
       snd (sheets_service environ g w) =
         w\<lparr>trace := trace w @ [Getenv ''GOOGLE_APPLICATION_CREDENTIALS'',
                                 Getenv ''GOOGLE_APPLICATION_CREDENTIALS_B64'',
                                 Getenv ''GOOGLE_APPLICATION_CREDENTIALS_JSON'',
                                 LogInfo ''Using inline JSON credentials from env'']\<rparr> \<and>
       (json_loads g j = Inr info \<and> from_service_account_info g info = Inr creds \<longrightarrow>
          fst (sheets_service environ g w) = build g creds) \<and>
       (json_loads g j = Inl e \<or>
        json_loads g j = Inr info \<and> from_service_account_info g info = Inl e \<longrightarrow>
          fst (sheets_service environ g w) = Inl e)) \<and>
    (getenv_truthy environ ''GOOGLE_APPLICATION_CREDENTIALS'' = None \<and>
     getenv_truthy environ ''GOOGLE_APPLICATION_CREDENTIALS_B64'' = None \<and>
     getenv_truthy environ ''GOOGLE_APPLICATION_CREDENTIALS_JSON'' = None \<longrightarrow>
       sheets_service environ g w =
         (Inl (RuntimeError ''No Google credentials provided''),
          w\<lparr>trace := trace w @ [Getenv ''GOOGLE_APPLICATION_CREDENTIALS'',
                                  Getenv ''GOOGLE_APPLICATION_CREDENTIALS_B64'',
                                  Getenv ''GOOGLE_APPLICATION_CREDENTIALS_JSON'']\<rparr>))"
proof (intro conjI impI)
  assume "getenv_truthy environ ''GOOGLE_APPLICATION_CREDENTIALS'' = Some p"
  note f = sheets_service_file [OF this, of g w]
  show "snd (sheets_service environ g w) =
         w\<lparr>trace := trace w @ [Getenv ''GOOGLE_APPLICATION_CREDENTIALS'',
                                 LogInfo (''Using credentials file: '' @ p)]\<rparr>"
    by (simp add: f)
  show "fst (sheets_service environ g w) = build g creds"
    if "from_service_account_file g p = Inr creds"
    using that by (simp add: f)
  show "fst (sheets_service environ g w) = Inl e"
    if "from_service_account_file g p = Inl e"
    using that by (simp add: f)
next
  assume "getenv_truthy environ ''GOOGLE_APPLICATION_CREDENTIALS'' = None \<and>
     getenv_truthy environ ''GOOGLE_APPLICATION_CREDENTIALS_B64'' = Some b"
  then have "getenv_truthy environ ''GOOGLE_APPLICATION_CREDENTIALS'' = None"
    and "getenv_truthy environ ''GOOGLE_APPLICATION_CREDENTIALS_B64'' = Some b"
    by simp_all
  note f = sheets_service_b64 [OF this, of g w]
  show "snd (sheets_service environ g w) =
         w\<lparr>trace := trace w @ [Getenv ''GOOGLE_APPLICATION_CREDENTIALS'',
                                 Getenv ''GOOGLE_APPLICATION_CREDENTIALS_B64'',
                                 LogInfo ''Using base64 credentials from env'']\<rparr>"
    by (simp add: f)
  show "fst (sheets_service environ g w) = build g creds"
    if "b64decode_utf8 g b = Inr decoded \<and> json_loads g decoded = Inr info \<and>
        from_service_account_info g info = Inr creds"
    using that by (simp add: f)
  show "fst (sheets_service environ g w) = Inl e"
    if "b64decode_utf8 g b = Inl e \<or>
        b64decode_utf8 g b = Inr decoded \<and> json_loads g decoded = Inl e \<or>
        b64decode_utf8 g b = Inr decoded \<and> json_loads g decoded = Inr info \<and>
          from_service_account_info g info = Inl e"
    using that by (auto simp: f)
next
  assume "getenv_truthy environ ''GOOGLE_APPLICATION_CREDENTIALS'' = None \<and>
     getenv_truthy environ ''GOOGLE_APPLICATION_CREDENTIALS_B64'' = None \<and>
     getenv_truthy environ ''GOOGLE_APPLICATION_CREDENTIALS_JSON'' = Some j"
  then have "getenv_truthy environ ''GOOGLE_APPLICATION_CREDENTIALS'' = None"
    and "getenv_truthy environ ''GOOGLE_APPLICATION_CREDENTIALS_B64'' = None"
    and "getenv_truthy environ ''GOOGLE_APPLICATION_CREDENTIALS_JSON'' = Some j"
    by simp_all
  note f = sheets_service_json [OF this, of g w]
  show "snd (sheets_service environ g w) =
         w\<lparr>trace := trace w @ [Getenv ''GOOGLE_APPLICATION_CREDENTIALS'',
                                 Getenv ''GOOGLE_APPLICATION_CREDENTIALS_B64'',
                                 Getenv ''GOOGLE_APPLICATION_CREDENTIALS_JSON'',
                                 LogInfo ''Using inline JSON credentials from env'']\<rparr>"
    by (simp add: f)
  show "fst (sheets_service environ g w) = build g creds"
    if "json_loads g j = Inr info \<and> from_service_account_info g info = Inr creds"
    using that by (simp add: f)
  show "fst (sheets_service environ g w) = Inl e"
    if "json_loads g j = Inl e \<or>
        json_loads g j = Inr info \<and> from_service_account_info g info = Inl e"
    using that by (auto simp: f)
next
  assume "getenv_truthy environ ''GOOGLE_APPLICATION_CREDENTIALS'' = None \<and>
     getenv_truthy environ ''GOOGLE_APPLICATION_CREDENTIALS_B64'' = None \<and>
     getenv_truthy environ ''GOOGLE_APPLICATION_CREDENTIALS_JSON'' = None"
  then show "sheets_service environ g w =
         (Inl (RuntimeError ''No Google credentials provided''),
          w\<lparr>trace := trace w @ [Getenv ''GOOGLE_APPLICATION_CREDENTIALS'',
                                  Getenv ''GOOGLE_APPLICATION_CREDENTIALS_B64'',
                                  Getenv ''GOOGLE_APPLICATION_CREDENTIALS_JSON'']\<rparr>)"
    by (simp add: sheets_service_none)
qed

theorem sheets_service_priority_witness:
  "getenv_truthy env_file_b64 ''GOOGLE_APPLICATION_CREDENTIALS'' = Some ''/secrets/sa.json'' \<and>
   getenv_truthy env_file_b64 ''GOOGLE_APPLICATION_CREDENTIALS_B64'' = Some ''e30='' \<and>
   sheets_service env_file_b64 (g_returning None 0) (w_at 0) =
     (Inr ''svc:creds:/secrets/sa.json'',
      \<lparr>clock = 0, trace = [Getenv ''GOOGLE_APPLICATION_CREDENTIALS'',
         LogInfo ''Using credentials file: /secrets/sa.json'']\<rparr>) \<and>
   getenv_truthy env_b64_json ''GOOGLE_APPLICATION_CREDENTIALS'' = None \<and>
   getenv_truthy env_b64_json ''GOOGLE_APPLICATION_CREDENTIALS_B64'' = Some ''e30='' \<and>
   getenv_truthy env_b64_json ''GOOGLE_APPLICATION_CREDENTIALS_JSON'' = Some ''{}'' \<and>
   sheets_service env_b64_json (g_returning None 0) (w_at 0) =
     (Inr ''svc:creds:info:decoded:e30='',
      \<lparr>clock = 0, trace = [Getenv ''GOOGLE_APPLICATION_CREDENTIALS'',
         Getenv ''GOOGLE_APPLICATION_CREDENTIALS_B64'',
         LogInfo ''Using base64 credentials from env'']\<rparr>) \<and>
   getenv_truthy env_all ''GOOGLE_APPLICATION_CREDENTIALS'' = Some ''/secrets/sa.json'' \<and>
   getenv_truthy env_all ''GOOGLE_APPLICATION_CREDENTIALS_B64'' = Some ''e30='' \<and>
   getenv_truthy env_all ''GOOGLE_APPLICATION_CREDENTIALS_JSON'' = Some ''{}'' \<and>
   sheets_service env_all g_failing (w_at 0) =
     (Inl (LibraryError ''bad key file''),
      \<lparr>clock = 0, trace = [Getenv ''GOOGLE_APPLICATION_CREDENTIALS'',
         LogInfo ''Using credentials file: /secrets/sa.json'']\<rparr>) \<and>
   getenv_truthy (env_json ''not json'') ''GOOGLE_APPLICATION_CREDENTIALS_JSON'' = Some ''not json'' \<and>
   sheets_service (env_json ''not json'') (g_returning None 0) (w_at 0) =
     (Inl (LibraryError ''JSONDecodeError''),
      \<lparr>clock = 0, trace = [Getenv ''GOOGLE_APPLICATION_CREDENTIALS'',
         Getenv ''GOOGLE_APPLICATION_CREDENTIALS_B64'',
         Getenv ''GOOGLE_APPLICATION_CREDENTIALS_JSON'',
         LogInfo ''Using inline JSON credentials from env'']\<rparr>) \<and>
   sheets_service env_none (g_returning None 0) (w_at 0) =
     (Inl (RuntimeError ''No Google credentials provided''),
      \<lparr>clock = 0, trace = [Getenv ''GOOGLE_APPLICATION_CREDENTIALS'',
         Getenv ''GOOGLE_APPLICATION_CREDENTIALS_B64'',
         Getenv ''GOOGLE_APPLICATION_CREDENTIALS_JSON'']\<rparr>)"
proof -
  have r1: "sheets_service env_file_b64 (g_returning None 0) (w_at 0) =
     (Inr ''svc:creds:/secrets/sa.json'',
      \<lparr>clock = 0, trace = [Getenv ''GOOGLE_APPLICATION_CREDENTIALS'',
         LogInfo ''Using credentials file: /secrets/sa.json'']\<rparr>)"
    using sheets_service_priority [where environ = env_file_b64 and g = "g_returning None 0"
        and w = "w_at 0" and p = "''/secrets/sa.json''" and creds = "''creds:/secrets/sa.json''"]
    by (simp add: getenv_examples prod_eq_iff g_returning_def w_at_def)
  have r2: "sheets_service env_b64_json (g_returning None 0) (w_at 0) =
     (Inr ''svc:creds:info:decoded:e30='',
      \<lparr>clock = 0, trace = [Getenv ''GOOGLE_APPLICATION_CREDENTIALS'',
         Getenv ''GOOGLE_APPLICATION_CREDENTIALS_B64'',
         LogInfo ''Using base64 credentials from env'']\<rparr>)"
    using sheets_service_priority [where environ = env_b64_json and g = "g_returning None 0"
        and w = "w_at 0" and b = "''e30=''" and decoded = "''decoded:e30=''"
        and info = "''info:decoded:e30=''" and creds = "''creds:info:decoded:e30=''"]
    by (simp add: getenv_examples prod_eq_iff g_returning_def w_at_def)
  have r3: "sheets_service env_all g_failing (w_at 0) =
     (Inl (LibraryError ''bad key file''),
      \<lparr>clock = 0, trace = [Getenv ''GOOGLE_APPLICATION_CREDENTIALS'',
         LogInfo ''Using credentials file: /secrets/sa.json'']\<rparr>)"
    using sheets_service_priority [where environ = env_all and g = g_failing
        and w = "w_at 0" and p = "''/secrets/sa.json''" and e = "LibraryError ''bad key file''"]
    by (simp add: getenv_examples prod_eq_iff g_failing_def w_at_def)
  have r4: "sheets_service (env_json ''not json'') (g_returning None 0) (w_at 0) =
     (Inl (LibraryError ''JSONDecodeError''),
      \<lparr>clock = 0, trace = [Getenv ''GOOGLE_APPLICATION_CREDENTIALS'',
         Getenv ''GOOGLE_APPLICATION_CREDENTIALS_B64'',
         Getenv ''GOOGLE_APPLICATION_CREDENTIALS_JSON'',
         LogInfo ''Using inline JSON credentials from env'']\<rparr>)"
    using sheets_service_priority [where environ = "env_json ''not json''"
        and g = "g_returning None 0" and w = "w_at 0" and j = "''not json''"
        and e = "LibraryError ''JSONDecodeError''"]
    by (simp add: getenv_examples prod_eq_iff g_returning_def w_at_def)
  have r5: "sheets_service env_none (g_returning None 0) (w_at 0) =
     (Inl (RuntimeError ''No Google credentials provided''),
      \<lparr>clock = 0, trace = [Getenv ''GOOGLE_APPLICATION_CREDENTIALS'',
         Getenv ''GOOGLE_APPLICATION_CREDENTIALS_B64'',
         Getenv ''GOOGLE_APPLICATION_CREDENTIALS_JSON'']\<rparr>)"
    using sheets_service_priority [where environ = env_none and g = "g_returning None 0"
        and w = "w_at 0"]
    by (simp add: getenv_examples w_at_def)
  from r1 r2 r3 r4 r5 show ?thesis by (simp add: getenv_examples)
qed

section \<open>Properties of the photo endpoints\<close>

text \<open>
  C8, as the code has it. A \<^verbatim>\<open>POST /api/photos\<close> whose content type is missing, empty or
  does not start with \<^verbatim>\<open>image/\<close> makes no storage call (the world is unchanged); the
  response is HTTP 400 when the photos bucket is configured, and HTTP 500
  \<^verbatim>\<open>PHOTOS_BUCKET not set\<close> when it is not, since that guard comes first.
\<close>

theorem upload_photo_rejects_non_image:
  assumes "not_image (content_type file)"
  shows "snd (upload_photo environ rt st file w) = w \<and>
         (BUCKET_NAME environ \<noteq> [] \<longrightarrow>
            fst (upload_photo environ rt st file w) =
              Inl (HTTPException 400 ''Only image uploads allowed'')) \<and>
         (BUCKET_NAME environ = [] \<longrightarrow>
            fst (upload_photo environ rt st file w) =
              Inl (HTTPException 500 ''PHOTOS_BUCKET not set''))"
  using assms by (simp add: upload_photo_def)

theorem upload_photo_rejects_non_image_witness:
  "not_image (content_type text_file) \<and>
   BUCKET_NAME env_bucket \<noteq> [] \<and>
   upload_photo env_bucket rt_example (st_blobs []) text_file (w_at 0) =
     (Inl (HTTPException 400 ''Only image uploads allowed''), w_at 0) \<and>
   BUCKET_NAME env_none = [] \<and>
   upload_photo env_none rt_example (st_blobs []) text_file (w_at 0) =
     (Inl (HTTPException 500 ''PHOTOS_BUCKET not set''), w_at 0)"
  using upload_photo_rejects_non_image [OF not_image_text_file, of env_bucket rt_example
      "st_blobs []" "w_at 0"]
    upload_photo_rejects_non_image [OF not_image_text_file, of env_none rt_example
      "st_blobs []" "w_at 0"]
  by (simp add: not_image_text_file BUCKET_NAME_examples prod_eq_iff)

text \<open>
  C8 as claimed fails: with no bucket configured, an upload with content type
  \<^verbatim>\<open>text/plain\<close> is answered with HTTP 500, not 400.
\<close>

theorem upload_photo_status_counterexample:
  "content_type text_file = Some ''text/plain'' \<and>
   \<not> startswith ''text/plain'' ''image/'' \<and>
   fst (upload_photo env_none rt_example (st_blobs []) text_file (w_at 0)) =
     Inl (HTTPException 500 ''PHOTOS_BUCKET not set'') \<and>
   fst (upload_photo env_none rt_example (st_blobs []) text_file (w_at 0)) \<noteq>
     Inl (HTTPException 400 ''Only image uploads allowed'')"
  by (simp add: upload_photo_def BUCKET_NAME_examples text_file_def startswith_def)

text \<open>
  C9. The loop of \<^verbatim>\<open>GET /api/photos\<close> tests the limit after it has appended a URL, so with
  \<^verbatim>\<open>limit=0\<close> and a bucket that holds a picture the response lists one URL, more than the
  limit. (For a limit of at least 1 the list is within the limit, and entries whose name
  ends in \<^verbatim>\<open>/\<close> are skipped for every limit: \<open>list_loop_bound\<close>,
  \<open>list_loop_skips_directories\<close>.)
\<close>

theorem list_photos_limit_zero:
  "list_photos env_bucket (st_blobs [Inr ''uploads/'', Inr ''uploads/a.jpg'', Inr ''uploads/b.jpg''])
     0 (w_at 0) =
   (Inr [(''ok'', JBool True),
         (''photos'', JStrList [''https://storage.googleapis.com/club-photos/uploads/a.jpg''])],
    \<lparr>clock = 0, trace = [GcsClient, ListBlobs ''club-photos'' ''uploads/'']\<rparr>)"
  by (simp add: list_photos_def BUCKET_NAME_examples st_blobs_def endswith_def emit_def
      w_at_def Let_def)

end
